theory Spec2Isabelle
  imports Main
begin

section \<open>The message factory of package dynamic (message\_factory.go)\<close>

text \<open>
  The file under verification holds two types, \<open>KnownTypeRegistry\<close> and
  \<open>MessageFactory\<close>, and the methods \<open>AddKnownType\<close>, \<open>CreateIfKnown\<close> and
  \<open>NewMessage\<close>. The embedding is sequential: one goroutine runs one method at a
  time. Every method takes the state it can touch (the registry behind the receiver,
  the store of allocated values) and returns it updated; a panic or a lock that is
  never granted is a value \<open>Inl e\<close>.
\<close>

subsection \<open>reflect.Type and message values\<close>

text \<open>
  The type of a message, \<open>rtype\<close>, is what \<open>reflect.TypeOf\<close> gives for a
  \<open>proto.Message\<close>: a pointer type \<open>*T\<close>, written \<open>PtrTo T\<close> (its \<open>Kind()\<close> is
  \<open>reflect.Ptr\<close>, its \<open>Elem()\<close> is \<open>T\<close>), or a type of another kind, known by its
  name. Such a type implements \<open>proto.Message\<close>, and so does the type of the instance
  \<open>CreateIfKnown\<close> builds from it, which is the same type.

  A \<open>reflect.Type\<close> that the program holds in \<open>msgType\<close> is a message type or
  a map type. The map types come from \<open>proto.MessageType\<close>, which by its own
  documentation returns, for the name of a map entry (such as
  \<open>google.protobuf.Struct.FieldsEntry\<close>), a type that does not implement
  \<open>proto.Message\<close>: the map type of the field. A map type has no methods, so it
  implements no interface that has one, and its \<open>Kind()\<close> is \<open>reflect.Map\<close>. The nil
  \<open>reflect.Type\<close> is \<open>None\<close>.
\<close>

datatype rtype = Named string | PtrTo rtype

datatype reflect_Type = MessageT rtype | MapT string

text \<open>
  The store of allocated values is a list: an address is an index, and allocation
  appends a cell, so the address of a new cell is the length of the store before.
  A non-nil \<open>proto.Message\<close> is a pointer of type \<open>*T\<close> (nil, or the address of a
  cell holding a \<open>T\<close>) or a value of a non-pointer type held directly in the interface.
  The nil interface is \<open>None\<close> of \<open>'v message option\<close>.
\<close>

type_synonym addr = nat

datatype 'v message = NilPtr rtype | Ref rtype addr | Val rtype 'v

fun TypeOf :: "'v message option \<Rightarrow> rtype option" where
  "TypeOf None = None"
| "TypeOf (Some (NilPtr t)) = Some (PtrTo t)"
| "TypeOf (Some (Ref t a)) = Some (PtrTo t)"
| "TypeOf (Some (Val t v)) = Some t"

subsection \<open>The ambient runtime: package proto and package reflect\<close>

text \<open>
  The program reads three things it does not own: \<open>proto.MessageType\<close> (the table of
  compiled-in types, nil for an unknown name), whether a message type has the method
  \<open>XXX_WellKnownType\<close>, and \<open>proto.MessageName\<close>. They are parameters of the
  model, as is the zero value of each type, which \<open>reflect.New\<close> writes into the cell
  it allocates.
\<close>

record 'v runtime =
  MessageType :: "string \<Rightarrow> reflect_Type option"
  Implements_typeOfWkt :: "rtype \<Rightarrow> bool"
  MessageName :: "'v message option \<Rightarrow> string"
  Zero :: "rtype \<Rightarrow> 'v"

text \<open>\<open>t.Implements(typeOfWkt)\<close>, for a non-nil \<open>t\<close>: false on a map type.\<close>

fun Implements :: "'v runtime \<Rightarrow> reflect_Type \<Rightarrow> bool" where
  "Implements env (MessageT t) = Implements_typeOfWkt env t"
| "Implements env (MapT k) = False"

definition reflect_New :: "'v runtime \<Rightarrow> 'v list \<Rightarrow> rtype \<Rightarrow> 'v list \<times> addr" where
  "reflect_New env h t = (h @ [Zero env t], length h)"

subsection \<open>sync.RWMutex\<close>

text \<open>
  A read/write lock is free, held by one writer, or held by \<open>Suc n\<close> readers. In a
  sequential run a lock that is not granted is never granted: the Go runtime stops the
  program (all goroutines are asleep). Releasing a lock that is not held is a fatal
  error of package sync.

  The ways a call can end without returning: the panic of a nil dereference, the lock
  that is never granted, the fatal error of a release, and the panic of a type assertion
  \<open>x.(proto.Message)\<close> on a value whose type does not implement the interface.
\<close>

datatype RWMutex = Unlocked | Locked | RLocked nat

datatype error = NilDereference | Deadlock | UnlockOfUnlocked | TypeAssertion

fun Lock :: "RWMutex \<Rightarrow> error + RWMutex" where
  "Lock Unlocked = Inr Locked"
| "Lock Locked = Inl Deadlock"
| "Lock (RLocked n) = Inl Deadlock"

fun Unlock :: "RWMutex \<Rightarrow> error + RWMutex" where
  "Unlock Locked = Inr Unlocked"
| "Unlock Unlocked = Inl UnlockOfUnlocked"
| "Unlock (RLocked n) = Inl UnlockOfUnlocked"

fun RLock :: "RWMutex \<Rightarrow> error + RWMutex" where
  "RLock Unlocked = Inr (RLocked 0)"
| "RLock (RLocked n) = Inr (RLocked (Suc n))"
| "RLock Locked = Inl Deadlock"

fun RUnlock :: "RWMutex \<Rightarrow> error + RWMutex" where
  "RUnlock (RLocked 0) = Inr Unlocked"
| "RUnlock (RLocked (Suc n)) = Inr (RLocked n)"
| "RUnlock Unlocked = Inl UnlockOfUnlocked"
| "RUnlock Locked = Inl UnlockOfUnlocked"

subsection \<open>KnownTypeRegistry\<close>

text \<open>
  The struct, field by field. \<open>types\<close> is a Go map that may be nil (\<open>None\<close>); a key
  may be bound to the nil \<open>reflect.Type\<close>. A \<open>*KnownTypeRegistry\<close> is a
  \<open>KnownTypeRegistry option\<close>: \<open>None\<close> is the nil pointer, \<open>Some reg\<close> a pointer
  to a registry in state \<open>reg\<close>.
\<close>

record KnownTypeRegistry =
  excludeWkt :: bool
  includeDefault :: bool
  mu :: RWMutex
  types :: "(string \<rightharpoonup> rtype option) option"

text \<open>Reading \<open>r.types[messageName]\<close>: a nil map and a missing key both give nil.\<close>

definition types_index :: "(string \<rightharpoonup> rtype option) option \<Rightarrow> string \<Rightarrow> rtype option" where
  "types_index ts messageName =
     (case ts of None \<Rightarrow> None
      | Some m \<Rightarrow> (case m messageName of None \<Rightarrow> None | Some t \<Rightarrow> t))"

text \<open>\<open>NewKnownTypeRegistryWithDefaults\<close>, \<open>NewKnownTypeRegistryWithoutWellKnownTypes\<close>
  and the zero value \<open>KnownTypeRegistry{}\<close>.\<close>

definition zero_KnownTypeRegistry :: KnownTypeRegistry where
  "zero_KnownTypeRegistry =
     \<lparr>excludeWkt = False, includeDefault = False, mu = Unlocked, types = None\<rparr>"

definition NewKnownTypeRegistryWithDefaults :: "KnownTypeRegistry option" where
  "NewKnownTypeRegistryWithDefaults = Some (zero_KnownTypeRegistry\<lparr>includeDefault := True\<rparr>)"

definition NewKnownTypeRegistryWithoutWellKnownTypes :: "KnownTypeRegistry option" where
  "NewKnownTypeRegistryWithoutWellKnownTypes = Some (zero_KnownTypeRegistry\<lparr>excludeWkt := True\<rparr>)"

text \<open>
  \<open>AddKnownType\<close>: the loop over \<open>kts\<close> writes one entry per message, in order. The
  method takes the write lock first (a nil receiver panics there), makes the map when
  it is nil, runs the loop, and the deferred \<open>Unlock\<close> releases the lock.
\<close>

fun AddKnownType_loop ::
  "'v runtime \<Rightarrow> (string \<rightharpoonup> rtype option) \<Rightarrow> 'v message option list \<Rightarrow> (string \<rightharpoonup> rtype option)" where
  "AddKnownType_loop env m [] = m"
| "AddKnownType_loop env m (kt # kts) =
     AddKnownType_loop env (m(MessageName env kt \<mapsto> TypeOf kt)) kts"

definition AddKnownType ::
  "'v runtime \<Rightarrow> KnownTypeRegistry option \<Rightarrow> 'v message option list \<Rightarrow> error + KnownTypeRegistry" where
  "AddKnownType env r kts =
     (case r of
        None \<Rightarrow> Inl NilDereference
      | Some reg \<Rightarrow>
          (case Lock (mu reg) of
             Inl e \<Rightarrow> Inl e
           | Inr mu1 \<Rightarrow>
               (let m = (case types reg of None \<Rightarrow> Map.empty | Some m0 \<Rightarrow> m0);
                    reg1 = reg\<lparr>mu := mu1, types := Some (AddKnownType_loop env m kts)\<rparr>
                in case Unlock (mu reg1) of
                     Inl e \<Rightarrow> Inl e
                   | Inr mu2 \<Rightarrow> Inr (reg1\<lparr>mu := mu2\<rparr>))))"

text \<open>
  \<open>CreateIfKnown\<close>. The first part computes the local \<open>msgType\<close> (lines 115 to 136)
  together with the state the registry is left in; the second part (lines 138 to 146)
  builds the instance. The result is the registry after the call, the store after the
  call and the returned \<open>proto.Message\<close> (\<open>None\<close> is nil).

  A type read from \<open>r.types\<close> is a message type: \<open>AddKnownType\<close> stores
  \<open>reflect.TypeOf(kt)\<close> for a \<open>kt\<close> of static type \<open>proto.Message\<close>. The value
  built at lines 142 to 146 has the type \<open>msgType\<close> itself, so the assertion
  \<open>.(proto.Message)\<close> that ends both branches succeeds on a message type. On a map
  type, whose kind is not \<open>reflect.Ptr\<close>, line 145 runs and its assertion panics.
\<close>

definition CreateIfKnown ::
  "'v runtime \<Rightarrow> KnownTypeRegistry option \<Rightarrow> string \<Rightarrow> 'v list \<Rightarrow>
     error + (KnownTypeRegistry option \<times> 'v list \<times> 'v message option)" where
  "CreateIfKnown env r messageName h =
     (case
        (case r of
           None \<Rightarrow>
             (case MessageType env messageName of
                None \<Rightarrow> Inr (None, None)
              | Some t \<Rightarrow> Inr (None, if Implements env t then Some t else None))
         | Some reg \<Rightarrow>
             (let msgType =
                (if includeDefault reg then MessageType env messageName
                 else if \<not> excludeWkt reg then
                   (case MessageType env messageName of
                      None \<Rightarrow> None
                    | Some t \<Rightarrow> if Implements env t then Some t else None)
                 else None)
              in if msgType = None then
                   (case RLock (mu reg) of
                      Inl e \<Rightarrow> Inl e
                    | Inr mu1 \<Rightarrow>
                        (let reg1 = reg\<lparr>mu := mu1\<rparr>;
                             msgType1 = map_option MessageT (types_index (types reg1) messageName)
                         in case RUnlock (mu reg1) of
                              Inl e \<Rightarrow> Inl e
                            | Inr mu2 \<Rightarrow> Inr (Some (reg1\<lparr>mu := mu2\<rparr>), msgType1)))
                 else Inr (Some reg, msgType)))
      of
        Inl e \<Rightarrow> Inl e
      | Inr (r1, msgType) \<Rightarrow>
          (case msgType of
             None \<Rightarrow> Inr (r1, h, None)
           | Some (MessageT (PtrTo e)) \<Rightarrow>
               (let (h1, a) = reflect_New env h e in Inr (r1, h1, Some (Ref e a)))
           | Some (MessageT (Named n)) \<Rightarrow>
               (let (h1, a) = reflect_New env h (Named n)
                in Inr (r1, h1, Some (Val (Named n) (h1 ! a))))
           | Some (MapT k) \<Rightarrow> Inl TypeAssertion))"

subsection \<open>MessageFactory\<close>

text \<open>
  The extension registry is opaque to this file: a type parameter. A
  \<open>*MessageFactory\<close> is a \<open>MessageFactory option\<close>, \<open>None\<close> the nil pointer.
\<close>

record 'e MessageFactory =
  er :: "'e option"
  ktr :: "KnownTypeRegistry option"






definition NewMessageFactoryWithRegistries ::
  "'e option \<Rightarrow> KnownTypeRegistry option \<Rightarrow> 'e MessageFactory option" where
  "NewMessageFactoryWithRegistries x k = Some \<lparr>er = x, ktr = k\<rparr>"

definition NewMessageFactoryWithExtensionRegistry :: "'e option \<Rightarrow> 'e MessageFactory option" where
  "NewMessageFactoryWithExtensionRegistry x = NewMessageFactoryWithRegistries x None"

definition NewMessageFactoryWithKnownTypeRegistry ::
  "KnownTypeRegistry option \<Rightarrow> 'e MessageFactory option" where
  "NewMessageFactoryWithKnownTypeRegistry k = NewMessageFactoryWithRegistries None k"

text \<open>
  \<open>NewMessageFactoryWithDefaults\<close> takes its extension registry from
  \<open>NewExtensionRegistryWithDefaults()\<close>, which is outside this file: a parameter.
\<close>

definition NewMessageFactoryWithDefaults :: "'e option \<Rightarrow> 'e MessageFactory option" where
  "NewMessageFactoryWithDefaults defaults =
     NewMessageFactoryWithRegistries defaults NewKnownTypeRegistryWithDefaults"


subsection \<open>Callers and auxiliary functions\<close>

text \<open>
  A caller that makes the calls \<open>CreateIfKnown(n)\<close> for the names of a list, one after
  the other, on the same registry; it stops at the first call that does not return.
\<close>

fun CreateIfKnown_calls ::
  "'v runtime \<Rightarrow> KnownTypeRegistry option \<Rightarrow> string list \<Rightarrow> 'v list \<Rightarrow>
     error + (KnownTypeRegistry option \<times> 'v list)" where
  "CreateIfKnown_calls env r [] h = Inr (r, h)"
| "CreateIfKnown_calls env r (n # ns) h =
     (case CreateIfKnown env r n h of
        Inl e \<Rightarrow> Inl e
      | Inr (r1, h1, m) \<Rightarrow> CreateIfKnown_calls env r1 ns h1)"

text \<open>
  Three functions used in the proofs only. They name the two halves of
  \<open>CreateIfKnown\<close>: \<open>selected\<close> is the value of \<open>msgType\<close> at line 138 (or the
  failure before it), \<open>instance_of\<close> is what lines 138 to 146 build from it. Lemma
  \<open>CreateIfKnown_eq\<close> below proves that the method is their composition.
\<close>

definition wellKnown :: "'v runtime \<Rightarrow> string \<Rightarrow> reflect_Type option" where
  "wellKnown env n =
     (case MessageType env n of
        None \<Rightarrow> None
      | Some t \<Rightarrow> if Implements env t then Some t else None)"

definition selected ::
  "'v runtime \<Rightarrow> KnownTypeRegistry option \<Rightarrow> string \<Rightarrow> error + reflect_Type option" where
  "selected env r n =
     (case r of
        None \<Rightarrow> Inr (wellKnown env n)
      | Some reg \<Rightarrow>
          (case (if includeDefault reg then MessageType env n
                 else if \<not> excludeWkt reg then wellKnown env n else None) of
             Some t \<Rightarrow> Inr (Some t)
           | None \<Rightarrow> if mu reg = Locked then Inl Deadlock
                     else Inr (map_option MessageT (types_index (types reg) n))))"

fun instance_of ::
  "'v runtime \<Rightarrow> 'v list \<Rightarrow> reflect_Type option \<Rightarrow> error + ('v list \<times> 'v message option)" where
  "instance_of env h None = Inr (h, None)"
| "instance_of env h (Some (MessageT (PtrTo e))) =
     Inr (h @ [Zero env e], Some (Ref e (length h)))"
| "instance_of env h (Some (MessageT (Named s))) =
     Inr (h @ [Zero env (Named s)], Some (Val (Named s) (Zero env (Named s))))"
| "instance_of env h (Some (MapT k)) = Inl TypeAssertion"

subsection \<open>A concrete runtime and concrete registries\<close>

text \<open>
  A small program image, on which the theorems are instantiated: three compiled-in
  messages, of which \<open>google.protobuf.Timestamp\<close> alone is a well-known type and
  \<open>pkg.Pair\<close> is a message with value receivers (a non-pointer type), and the map
  entry \<open>google.protobuf.Struct.FieldsEntry\<close>; two more
  message types, \<open>*my.Timestamp\<close> and \<open>*pkg.Bar\<close>, are not compiled in.
  \<open>*my.Timestamp\<close> names itself \<open>google.protobuf.Timestamp\<close> through the method
  \<open>XXX_MessageName\<close>. Values are numbers, the zero value of every type is 0.
\<close>

definition example_runtime :: "nat runtime" where
  "example_runtime =
     \<lparr>MessageType = (\<lambda>n.
        if n = ''google.protobuf.Timestamp'' then Some (MessageT (PtrTo (Named ''timestamp.Timestamp'')))
        else if n = ''pkg.Foo'' then Some (MessageT (PtrTo (Named ''pkg.Foo'')))
        else if n = ''pkg.Pair'' then Some (MessageT (Named ''pkg.Pair''))
        else if n = ''google.protobuf.Struct.FieldsEntry'' then Some (MapT ''map[string]*structpb.Value'')
        else None),
      Implements_typeOfWkt = (\<lambda>t. t = PtrTo (Named ''timestamp.Timestamp'')),
      MessageName = (\<lambda>kt.
        if TypeOf kt = Some (PtrTo (Named ''timestamp.Timestamp'')) then ''google.protobuf.Timestamp''
        else if TypeOf kt = Some (PtrTo (Named ''my.Timestamp'')) then ''google.protobuf.Timestamp''
        else if TypeOf kt = Some (PtrTo (Named ''pkg.Foo'')) then ''pkg.Foo''
        else if TypeOf kt = Some (PtrTo (Named ''pkg.Bar'')) then ''pkg.Bar''
        else if TypeOf kt = Some (Named ''pkg.Pair'') then ''pkg.Pair''
        else []),
      Zero = (\<lambda>t. 0)\<rparr>"

text \<open>
  The registry after \<open>AddKnownType((*my.Timestamp)(nil), (*pkg.Bar)(nil))\<close> on a
  zero-value registry, and the same with the well-known types excluded.
\<close>

definition example_types :: "string \<rightharpoonup> rtype option" where
  "example_types =
     [''google.protobuf.Timestamp'' \<mapsto> Some (PtrTo (Named ''my.Timestamp'')),
      ''pkg.Bar'' \<mapsto> Some (PtrTo (Named ''pkg.Bar''))]"

definition example_registry :: KnownTypeRegistry where
  "example_registry = zero_KnownTypeRegistry\<lparr>types := Some example_types\<rparr>"

definition example_registry_without_wkt :: KnownTypeRegistry where
  "example_registry_without_wkt = example_registry\<lparr>excludeWkt := True\<rparr>"

section \<open>What one call of CreateIfKnown does\<close>

text \<open>
  Three lemmas give the outcome of a call in closed form: on the nil registry, when the
  compiled-in steps (lines 123 to 130) select a type, and when they select none and the
  read lock is granted. Together they show that the method is the composition of
  \<open>selected\<close> and \<open>instance_of\<close>.
\<close>

lemma RLock_then_RUnlock: "RLock l = Inr l1 \<Longrightarrow> RUnlock l1 = Inr l"
  by (cases l) auto

lemma RLock_granted: "l \<noteq> Locked \<Longrightarrow> \<exists>l1. RLock l = Inr l1"
  by (cases l) auto

lemma RLock_refused: "RLock Locked = Inl Deadlock"
  by simp

lemma CreateIfKnown_nil:
  "CreateIfKnown env None n h =
     (case instance_of env h (wellKnown env n) of Inl e \<Rightarrow> Inl e | Inr hm \<Rightarrow> Inr (None, hm))"
  unfolding CreateIfKnown_def wellKnown_def
  by (auto simp: reflect_New_def split: option.splits reflect_Type.splits rtype.splits)

lemma CreateIfKnown_compiled:
  assumes "(if includeDefault reg then MessageType env n
            else if \<not> excludeWkt reg then wellKnown env n else None) = Some t"
  shows "CreateIfKnown env (Some reg) n h =
     (case instance_of env h (Some t) of Inl e \<Rightarrow> Inl e | Inr hm \<Rightarrow> Inr (Some reg, hm))"
proof -
  have "(if includeDefault reg then MessageType env n
         else if \<not> excludeWkt reg then
           (case MessageType env n of None \<Rightarrow> None
            | Some t \<Rightarrow> if Implements env t then Some t else None)
         else None) = Some t"
    using assms unfolding wellKnown_def .
  then show ?thesis
    unfolding CreateIfKnown_def
    by (cases "(env, h, Some t)" rule: instance_of.cases) (simp_all add: Let_def reflect_New_def)
qed

lemma CreateIfKnown_registered:
  assumes "(if includeDefault reg then MessageType env n
            else if \<not> excludeWkt reg then wellKnown env n else None) = None"
    and "mu reg \<noteq> Locked"
  shows "CreateIfKnown env (Some reg) n h =
     (case instance_of env h (map_option MessageT (types_index (types reg) n)) of
        Inl e \<Rightarrow> Inl e | Inr hm \<Rightarrow> Inr (Some reg, hm))"
proof -
  from assms(2) obtain l1 where l1: "RLock (mu reg) = Inr l1"
    using RLock_granted by blast
  then have l2: "RUnlock l1 = Inr (mu reg)"
    by (rule RLock_then_RUnlock)
  have "(if includeDefault reg then MessageType env n
         else if \<not> excludeWkt reg then
           (case MessageType env n of None \<Rightarrow> None
            | Some t \<Rightarrow> if Implements env t then Some t else None)
         else None) = None"
    using assms(1) unfolding wellKnown_def .
  then show ?thesis
    unfolding CreateIfKnown_def using l1 l2
    by (cases "(env, h, map_option MessageT (types_index (types reg) n))" rule: instance_of.cases)
       (auto simp: Let_def reflect_New_def)
qed

lemma CreateIfKnown_eq:
  "CreateIfKnown env r n h =
     (case selected env r n of
        Inl e \<Rightarrow> Inl e
      | Inr t \<Rightarrow> (case instance_of env h t of Inl e \<Rightarrow> Inl e | Inr hm \<Rightarrow> Inr (r, hm)))"
proof (cases r)
  case None
  show ?thesis
    unfolding None CreateIfKnown_nil by (simp add: selected_def)
next
  case (Some reg)
  let ?c = "if includeDefault reg then MessageType env n
            else if \<not> excludeWkt reg then wellKnown env n else None"
  show ?thesis
  proof (cases ?c)
    case (Some t)
    show ?thesis
      unfolding \<open>r = Some reg\<close> CreateIfKnown_compiled [OF Some]
      by (simp add: selected_def Some)
  next
    case None
    show ?thesis
    proof (cases "mu reg = Locked")
      case False
      show ?thesis
        unfolding \<open>r = Some reg\<close> CreateIfKnown_registered [OF None False]
        by (simp add: selected_def None False)
    next
      case True
      have "(if includeDefault reg then MessageType env n
             else if \<not> excludeWkt reg then
               (case MessageType env n of None \<Rightarrow> None
                | Some t \<Rightarrow> if Implements env t then Some t else None)
             else None) = None"
        using None unfolding wellKnown_def .
      then have "CreateIfKnown env (Some reg) n h = Inl Deadlock"
        unfolding CreateIfKnown_def using True by (simp add: Let_def)
      then show ?thesis
        unfolding \<open>r = Some reg\<close> by (simp add: selected_def None True)
    qed
  qed
qed

lemma CreateIfKnown_registry:
  "CreateIfKnown env r n h = Inr (r1, h1, m) \<Longrightarrow> r1 = r"
  by (auto simp: CreateIfKnown_eq split: sum.splits)

text \<open>The instance built from a message type: its store, its value and its type.\<close>

lemma instance_of_MessageT:
  "\<exists>h1 x. instance_of env h (Some (MessageT t)) = Inr (h1, Some x) \<and> TypeOf (Some x) = Some t"
  by (cases t) simp_all

lemma wellKnown_MessageT:
  "wellKnown env n = Some t \<Longrightarrow> \<exists>u. t = MessageT u \<and> MessageType env n = Some (MessageT u)
     \<and> Implements_typeOfWkt env u"
  by (cases t) (auto simp: wellKnown_def split: option.splits if_splits)

lemma wellKnown_iff:
  "wellKnown env n = Some (MessageT u) \<longleftrightarrow>
     MessageType env n = Some (MessageT u) \<and> Implements_typeOfWkt env u"
  by (auto simp: wellKnown_def split: option.splits if_splits)

lemma instance_of_TypeOf:
  "map_sum id (\<lambda>(h1, m). TypeOf m) (instance_of env h t) =
   map_sum id (\<lambda>(h1, m). TypeOf m) (instance_of env h' t)"
  by (cases "(env, h, t)" rule: instance_of.cases) simp_all

lemma CreateIfKnown_TypeOf:
  "map_sum id (\<lambda>(r1, h1, m). TypeOf m) (CreateIfKnown env r n h) =
   map_sum id (\<lambda>(r1, h1, m). TypeOf m) (CreateIfKnown env r n h')"
proof (cases "selected env r n")
  case (Inl e)
  then show ?thesis by (simp add: CreateIfKnown_eq)
next
  case (Inr t)
  from instance_of_TypeOf [of env h t h'] show ?thesis
    by (cases "instance_of env h t"; cases "instance_of env h' t")
       (auto simp: CreateIfKnown_eq Inr)
qed

lemma CreateIfKnown_calls_registry:
  "CreateIfKnown_calls env r ns h = Inr (r2, h2) \<Longrightarrow> r2 = r"
proof (induction ns arbitrary: r h)
  case Nil
  then show ?case by simp
next
  case (Cons n ns)
  then show ?case
    by (auto split: sum.splits dest: CreateIfKnown_registry)
qed

text \<open>
  A call returns when the read lock can be granted and the name is not a map entry
  looked up with \<open>includeDefault\<close> set.
\<close>

lemma selected_returns:
  assumes "\<forall>reg. r = Some reg \<longrightarrow>
             mu reg \<noteq> Locked \<and> (includeDefault reg \<longrightarrow> (\<forall>k. MessageType env n \<noteq> Some (MapT k)))"
  shows "selected env r n = Inr None \<or> (\<exists>t. selected env r n = Inr (Some (MessageT t)))"
proof (cases r)
  case None
  show ?thesis
  proof (cases "wellKnown env n")
    case None
    then show ?thesis using \<open>r = None\<close> by (simp add: selected_def)
  next
    case (Some t)
    from wellKnown_MessageT [OF Some] show ?thesis
      using \<open>r = None\<close> Some by (auto simp: selected_def)
  qed
next
  case (Some reg)
  with assms have free: "mu reg \<noteq> Locked"
    and nomap: "includeDefault reg \<Longrightarrow> MessageType env n \<noteq> Some (MapT k)" for k
    by auto
  let ?c = "if includeDefault reg then MessageType env n
            else if \<not> excludeWkt reg then wellKnown env n else None"
  show ?thesis
  proof (cases ?c)
    case None
    then show ?thesis
      using free \<open>r = Some reg\<close>
      by (cases "types_index (types reg) n") (simp_all add: selected_def)
  next
    case c: (Some t)
    have "\<exists>u. t = MessageT u"
    proof (cases "includeDefault reg")
      case True
      with c nomap show ?thesis by (cases t) auto
    next
      case False
      with c have "wellKnown env n = Some t" by (simp split: if_splits)
      from wellKnown_MessageT [OF this] show ?thesis by blast
    qed
    then show ?thesis
      using c \<open>r = Some reg\<close> by (auto simp: selected_def)
  qed
qed

lemma CreateIfKnown_returns:
  assumes "\<forall>reg. r = Some reg \<longrightarrow>
             mu reg \<noteq> Locked \<and> (includeDefault reg \<longrightarrow> (\<forall>k. MessageType env n \<noteq> Some (MapT k)))"
  shows "\<exists>h1 m. CreateIfKnown env r n h = Inr (r, h1, m)"
proof -
  from selected_returns [OF assms]
  consider "selected env r n = Inr None" | t where "selected env r n = Inr (Some (MessageT t))"
    by blast
  then show ?thesis
  proof cases
    case 1
    then show ?thesis by (simp add: CreateIfKnown_eq)
  next
    case 2
    from instance_of_MessageT [of env h t] obtain h1 x
      where "instance_of env h (Some (MessageT t)) = Inr (h1, Some x)" by blast
    with 2 show ?thesis by (simp add: CreateIfKnown_eq)
  qed
qed

lemma CreateIfKnown_calls_returns:
  assumes "\<forall>reg. r = Some reg \<longrightarrow>
             mu reg \<noteq> Locked
           \<and> (includeDefault reg \<longrightarrow> (\<forall>n \<in> set ns. \<forall>k. MessageType env n \<noteq> Some (MapT k)))"
  shows "\<exists>h2. CreateIfKnown_calls env r ns h = Inr (r, h2)"
  using assms
proof (induction ns arbitrary: h)
  case Nil
  show ?case by simp
next
  case (Cons n ns)
  from Cons.prems have "\<forall>reg. r = Some reg \<longrightarrow>
      mu reg \<noteq> Locked \<and> (includeDefault reg \<longrightarrow> (\<forall>k. MessageType env n \<noteq> Some (MapT k)))"
    by simp
  from CreateIfKnown_returns [OF this] obtain h1 m
    where one: "CreateIfKnown env r n h = Inr (r, h1, m)" by blast
  from Cons.prems have "\<forall>reg. r = Some reg \<longrightarrow>
      mu reg \<noteq> Locked
    \<and> (includeDefault reg \<longrightarrow> (\<forall>n \<in> set ns. \<forall>k. MessageType env n \<noteq> Some (MapT k)))"
    by simp
  from Cons.IH [OF this, of h1] one show ?case by simp
qed

section \<open>What AddKnownType does\<close>

lemma AddKnownType_loop_eq:
  "AddKnownType_loop env m kts = m ++ map_of (rev (map (\<lambda>kt. (MessageName env kt, TypeOf kt)) kts))"
proof (induction kts arbitrary: m)
  case Nil
  show ?case by simp
next
  case (Cons kt kts)
  have "m(MessageName env kt \<mapsto> TypeOf kt) = m ++ [MessageName env kt \<mapsto> TypeOf kt]"
    by simp
  then show ?case
    by (simp only: AddKnownType_loop.simps Cons.IH list.map rev.simps map_of_append
          map_of.simps map_add_assoc fst_conv snd_conv)
qed

lemma AddKnownType_returns:
  "mu reg = Unlocked \<Longrightarrow>
   AddKnownType env (Some reg) kts =
     Inr (reg\<lparr>types := Some (AddKnownType_loop env
            (case types reg of None \<Rightarrow> Map.empty | Some m \<Rightarrow> m) kts)\<rparr>)"
  by (simp add: AddKnownType_def Let_def)

lemma selected_cong:
  assumes "excludeWkt r' = excludeWkt reg" and "includeDefault r' = includeDefault reg"
    and "mu r' = mu reg" and "types_index (types r') n = types_index (types reg) n"
  shows "selected env (Some r') n = selected env (Some reg) n"
  using assms by (simp add: selected_def split: option.splits)

lemma CreateIfKnown_cong:
  assumes "excludeWkt r' = excludeWkt reg" and "includeDefault r' = includeDefault reg"
    and "mu r' = mu reg" and "types_index (types r') n = types_index (types reg) n"
  shows "CreateIfKnown env (Some r') n h =
     (case CreateIfKnown env (Some reg) n h of
        Inl e \<Rightarrow> Inl e | Inr (r1, hm) \<Rightarrow> Inr (Some r', hm))"
  by (simp add: CreateIfKnown_eq selected_cong [OF assms] split: sum.splits)

lemma map_add_idem: "(m ++ f) ++ f = m ++ f"
  by (simp add: map_add_def fun_eq_iff split: option.splits)

section \<open>The concrete runtime, evaluated\<close>

lemmas example_defs =
  example_runtime_def example_registry_def example_registry_without_wkt_def example_types_def
  zero_KnownTypeRegistry_def

lemmas CreateIfKnown_eval =
  CreateIfKnown_eq selected_def wellKnown_def types_index_def

section \<open>The claims\<close>

text \<open>
  Claim C1. In well-known-only mode (neither \<open>excludeWkt\<close> nor \<open>includeDefault\<close>
  set), for a name that is a compiled-in well-known type and is also bound in the map
  \<open>types\<close> by \<open>AddKnownType\<close>, \<open>CreateIfKnown\<close> returns an instance of the
  compiled-in type \<open>t\<close>, not of the registered type \<open>u\<close>. The map is not consulted:
  the call gives the same store and the same instance whatever the map holds, and
  whatever state the lock is in, since the lock is not taken.
\<close>

theorem CreateIfKnown_compiled_in_wins:
  assumes "\<not> excludeWkt reg" and "\<not> includeDefault reg"
    and "MessageType env n = Some (MessageT t)" and "Implements_typeOfWkt env t"
    and "types reg = Some m" and "m n = Some (Some u)"
  shows "\<exists>h1 x. CreateIfKnown env (Some reg) n h = Inr (Some reg, h1, Some x)
           \<and> TypeOf (Some x) = Some t
           \<and> (\<forall>ts l. CreateIfKnown env (Some (reg\<lparr>mu := l, types := ts\<rparr>)) n h
                      = Inr (Some (reg\<lparr>mu := l, types := ts\<rparr>), h1, Some x))"
proof -
  from instance_of_MessageT [of env h t] obtain h1 x
    where i: "instance_of env h (Some (MessageT t)) = Inr (h1, Some x)"
      and tx: "TypeOf (Some x) = Some t"
    by blast
  have w: "wellKnown env n = Some (MessageT t)"
    using assms(3,4) by (simp add: wellKnown_iff)
  have sel: "CreateIfKnown env (Some r') n h = Inr (Some r', h1, Some x)"
    if "excludeWkt r' = excludeWkt reg" "includeDefault r' = includeDefault reg" for r'
    using that assms(1,2) w i by (subst CreateIfKnown_compiled [where t = "MessageT t"]) simp_all
  show ?thesis
    by (intro exI [of _ h1] exI [of _ x]) (simp add: sel tx)
qed

theorem CreateIfKnown_compiled_in_wins_witness:
  "\<not> excludeWkt example_registry \<and> \<not> includeDefault example_registry
 \<and> MessageType example_runtime ''google.protobuf.Timestamp''
     = Some (MessageT (PtrTo (Named ''timestamp.Timestamp'')))
 \<and> Implements_typeOfWkt example_runtime (PtrTo (Named ''timestamp.Timestamp''))
 \<and> types example_registry = Some example_types
 \<and> example_types ''google.protobuf.Timestamp'' = Some (Some (PtrTo (Named ''my.Timestamp'')))
 \<and> (\<exists>h1 x. CreateIfKnown example_runtime (Some example_registry) ''google.protobuf.Timestamp'' []
             = Inr (Some example_registry, h1, Some x)
           \<and> TypeOf (Some x) = Some (PtrTo (Named ''timestamp.Timestamp''))
           \<and> (\<forall>ts l. CreateIfKnown example_runtime (Some (example_registry\<lparr>mu := l, types := ts\<rparr>))
                        ''google.protobuf.Timestamp'' []
                      = Inr (Some (example_registry\<lparr>mu := l, types := ts\<rparr>), h1, Some x)))"
proof -
  have 1: "\<not> excludeWkt example_registry" and 2: "\<not> includeDefault example_registry"
    by (simp_all add: example_defs)
  have 3: "MessageType example_runtime ''google.protobuf.Timestamp''
     = Some (MessageT (PtrTo (Named ''timestamp.Timestamp'')))"
    and 4: "Implements_typeOfWkt example_runtime (PtrTo (Named ''timestamp.Timestamp''))"
    by (simp_all add: example_defs)
  have 5: "types example_registry = Some example_types"
    and 6: "example_types ''google.protobuf.Timestamp'' = Some (Some (PtrTo (Named ''my.Timestamp'')))"
    by (simp_all add: example_defs)
  note CreateIfKnown_compiled_in_wins [OF 1 2 3 4 5 6, of "[]"]
  with 1 2 3 4 5 6 show ?thesis by (intro conjI)
qed

text \<open>
  Claim C2. The nil registry and the zero-value registry behave alike, and like every
  registry in well-known-only mode in which the name is not registered (the map gives nil
  for it): \<open>CreateIfKnown\<close> returns the same store and the same message on each of
  them. The message is an instance exactly when \<open>proto.MessageType\<close> knows the name and
  the type has the well-known marker, and it is then an instance of that type; otherwise
  the call returns nil.
\<close>

theorem CreateIfKnown_nil_and_zero_registry:
  assumes "\<not> excludeWkt reg" and "\<not> includeDefault reg" and "mu reg \<noteq> Locked"
    and "types_index (types reg) n = None"
  shows "\<exists>h1 m.
           CreateIfKnown env None n h = Inr (None, h1, m)
         \<and> CreateIfKnown env (Some zero_KnownTypeRegistry) n h = Inr (Some zero_KnownTypeRegistry, h1, m)
         \<and> CreateIfKnown env (Some reg) n h = Inr (Some reg, h1, m)
         \<and> (m \<noteq> None) = (\<exists>t. MessageType env n = Some (MessageT t) \<and> Implements_typeOfWkt env t)
         \<and> TypeOf m = (case MessageType env n of
                          Some (MessageT t) \<Rightarrow> if Implements_typeOfWkt env t then Some t else None
                        | _ \<Rightarrow> None)"
proof -
  obtain hm where nil: "CreateIfKnown env None n h = Inr (None, hm)"
    and ty: "TypeOf (snd hm) = (case MessageType env n of
                          Some (MessageT t) \<Rightarrow> if Implements_typeOfWkt env t then Some t else None
                        | _ \<Rightarrow> None)"
    and iw: "instance_of env h (wellKnown env n) = Inr hm"
  proof (cases "wellKnown env n")
    case None
    then have "TypeOf (None :: 'a message option) = (case MessageType env n of
                          Some (MessageT t) \<Rightarrow> if Implements_typeOfWkt env t then Some t else None
                        | _ \<Rightarrow> None)"
      by (auto simp: wellKnown_def split: option.splits reflect_Type.splits if_splits)
    with None that [of "(h, None)"] show ?thesis
      by (simp add: CreateIfKnown_nil)
  next
    case (Some t)
    from wellKnown_MessageT [OF Some] obtain u where u: "t = MessageT u"
      "MessageType env n = Some (MessageT u)" "Implements_typeOfWkt env u"
      by blast
    from instance_of_MessageT [of env h u] obtain h1 x
      where "instance_of env h (Some (MessageT u)) = Inr (h1, Some x)" "TypeOf (Some x) = Some u"
      by blast
    with Some u that [of "(h1, Some x)"] show ?thesis
      by (simp add: CreateIfKnown_nil)
  qed
  have general: "CreateIfKnown env (Some r') n h = Inr (Some r', hm)"
    if "\<not> excludeWkt r'" "\<not> includeDefault r'" "mu r' \<noteq> Locked" "types_index (types r') n = None" for r'
  proof (cases "wellKnown env n")
    case None
    with that iw show ?thesis
      by (subst CreateIfKnown_registered) simp_all
  next
    case (Some t)
    with that iw show ?thesis
      by (subst CreateIfKnown_compiled [where t = t]) simp_all
  qed
  have zero: "CreateIfKnown env (Some zero_KnownTypeRegistry) n h = Inr (Some zero_KnownTypeRegistry, hm)"
    by (rule general) (simp_all add: zero_KnownTypeRegistry_def types_index_def)
  have known: "(snd hm \<noteq> None) = (\<exists>t. MessageType env n = Some (MessageT t) \<and> Implements_typeOfWkt env t)"
  proof -
    have "(snd hm \<noteq> None) = (TypeOf (snd hm) \<noteq> None)"
      by (cases "(snd hm)" rule: TypeOf.cases) simp_all
    also have "\<dots> = (\<exists>t. MessageType env n = Some (MessageT t) \<and> Implements_typeOfWkt env t)"
      unfolding ty by (auto split: option.splits reflect_Type.splits)
    finally show ?thesis .
  qed
  show ?thesis
    using nil zero general [OF assms] known ty
    by (intro exI [of _ "fst hm"] exI [of _ "snd hm"]) simp
qed

theorem CreateIfKnown_nil_and_zero_registry_witness:
  "\<not> excludeWkt example_registry \<and> \<not> includeDefault example_registry
 \<and> mu example_registry \<noteq> Locked
 \<and> types_index (types example_registry) ''pkg.Foo'' = None
 \<and> MessageType example_runtime ''pkg.Foo'' = Some (MessageT (PtrTo (Named ''pkg.Foo'')))
 \<and> CreateIfKnown example_runtime None ''pkg.Foo'' [] = Inr (None, [], None)
 \<and> CreateIfKnown example_runtime (Some zero_KnownTypeRegistry) ''pkg.Foo'' []
     = Inr (Some zero_KnownTypeRegistry, [], None)
 \<and> CreateIfKnown example_runtime (Some example_registry) ''pkg.Foo'' []
     = Inr (Some example_registry, [], None)
 \<and> \<not> excludeWkt zero_KnownTypeRegistry \<and> \<not> includeDefault zero_KnownTypeRegistry
 \<and> mu zero_KnownTypeRegistry \<noteq> Locked
 \<and> types_index (types zero_KnownTypeRegistry) ''google.protobuf.Timestamp'' = None
 \<and> (\<exists>h1 x. CreateIfKnown example_runtime None ''google.protobuf.Timestamp'' [] = Inr (None, h1, Some x)
           \<and> CreateIfKnown example_runtime (Some zero_KnownTypeRegistry) ''google.protobuf.Timestamp'' []
               = Inr (Some zero_KnownTypeRegistry, h1, Some x)
           \<and> TypeOf (Some x) = Some (PtrTo (Named ''timestamp.Timestamp'')))"
proof -
  have e: "\<not> excludeWkt example_registry" "\<not> includeDefault example_registry"
    "mu example_registry \<noteq> Locked" "types_index (types example_registry) ''pkg.Foo'' = None"
    by (simp_all add: types_index_def example_defs)
  have z: "\<not> excludeWkt zero_KnownTypeRegistry" "\<not> includeDefault zero_KnownTypeRegistry"
    "mu zero_KnownTypeRegistry \<noteq> Locked"
    "types_index (types zero_KnownTypeRegistry) ''google.protobuf.Timestamp'' = None"
    by (simp_all add: types_index_def example_defs)
  have foo: "MessageType example_runtime ''pkg.Foo'' = Some (MessageT (PtrTo (Named ''pkg.Foo'')))"
    and nfoo: "\<not> Implements_typeOfWkt example_runtime (PtrTo (Named ''pkg.Foo''))"
    and ts: "MessageType example_runtime ''google.protobuf.Timestamp''
       = Some (MessageT (PtrTo (Named ''timestamp.Timestamp'')))"
    and wts: "Implements_typeOfWkt example_runtime (PtrTo (Named ''timestamp.Timestamp''))"
    by (simp_all add: example_defs)
  from CreateIfKnown_nil_and_zero_registry [OF e, of example_runtime "[]"]
  obtain h1 m where a: "CreateIfKnown example_runtime None ''pkg.Foo'' [] = Inr (None, h1, m)"
    "CreateIfKnown example_runtime (Some zero_KnownTypeRegistry) ''pkg.Foo'' []
       = Inr (Some zero_KnownTypeRegistry, h1, m)"
    "CreateIfKnown example_runtime (Some example_registry) ''pkg.Foo'' [] = Inr (Some example_registry, h1, m)"
    "(m \<noteq> None) = (\<exists>t. MessageType example_runtime ''pkg.Foo'' = Some (MessageT t)
         \<and> Implements_typeOfWkt example_runtime t)"
    by blast
  from a(4) foo nfoo have m: "m = None" by simp
  have "CreateIfKnown example_runtime None ''pkg.Foo'' [] = Inr (None, [], None)"
    by (simp add: CreateIfKnown_eval example_defs)
  with a(1) have h1: "h1 = []" by simp
  from CreateIfKnown_nil_and_zero_registry [OF z, of example_runtime "[]"]
  obtain h2 m2 where b: "CreateIfKnown example_runtime None ''google.protobuf.Timestamp'' [] = Inr (None, h2, m2)"
    "CreateIfKnown example_runtime (Some zero_KnownTypeRegistry) ''google.protobuf.Timestamp'' []
       = Inr (Some zero_KnownTypeRegistry, h2, m2)"
    "(m2 \<noteq> None) = (\<exists>t. MessageType example_runtime ''google.protobuf.Timestamp'' = Some (MessageT t)
         \<and> Implements_typeOfWkt example_runtime t)"
    "TypeOf m2 = (case MessageType example_runtime ''google.protobuf.Timestamp'' of
                    Some (MessageT t) \<Rightarrow> if Implements_typeOfWkt example_runtime t then Some t else None
                  | _ \<Rightarrow> None)"
    by blast
  from b(3) ts wts obtain x where x: "m2 = Some x" by auto
  from b(4) ts wts have tx: "TypeOf (Some x) = Some (PtrTo (Named ''timestamp.Timestamp''))"
    unfolding x by simp
  have c: "\<exists>h1 x. CreateIfKnown example_runtime None ''google.protobuf.Timestamp'' [] = Inr (None, h1, Some x)
           \<and> CreateIfKnown example_runtime (Some zero_KnownTypeRegistry) ''google.protobuf.Timestamp'' []
               = Inr (Some zero_KnownTypeRegistry, h1, Some x)
           \<and> TypeOf (Some x) = Some (PtrTo (Named ''timestamp.Timestamp''))"
    using b(1,2) tx unfolding x by blast
  from e foo a(1-3) z c show ?thesis
    unfolding m h1 by (intro conjI)
qed



text \<open>
  Claim C4. When the registry excludes the well-known types (\<open>excludeWkt\<close> set,
  \<open>includeDefault\<close> unset), a well-known name, for which a compiled-in type exists, is
  looked up in the map \<open>types\<close> only. If the map gives nil for it (nothing registered),
  \<open>CreateIfKnown\<close> returns nil and allocates nothing; if \<open>AddKnownType\<close> has bound the
  name to a type \<open>u\<close>, the call returns an instance of \<open>u\<close>. The read lock must be
  grantable, as it is whenever no call of \<open>AddKnownType\<close> is in progress.
\<close>

theorem CreateIfKnown_excluding_well_known:
  assumes "excludeWkt reg" and "\<not> includeDefault reg" and "mu reg \<noteq> Locked"
    and "MessageType env n = Some (MessageT t)" and "Implements_typeOfWkt env t"
  shows "(types_index (types reg) n = None \<longrightarrow>
            CreateIfKnown env (Some reg) n h = Inr (Some reg, h, None))
       \<and> (\<forall>u. types_index (types reg) n = Some u \<longrightarrow>
            (\<exists>h1 x. CreateIfKnown env (Some reg) n h = Inr (Some reg, h1, Some x)
                    \<and> TypeOf (Some x) = Some u))"
proof -
  have c: "CreateIfKnown env (Some reg) n h =
     (case instance_of env h (map_option MessageT (types_index (types reg) n)) of
        Inl e \<Rightarrow> Inl e | Inr hm \<Rightarrow> Inr (Some reg, hm))"
    using assms(1-3) by (intro CreateIfKnown_registered) simp_all
  show ?thesis
  proof (intro conjI allI impI)
    assume "types_index (types reg) n = None"
    then show "CreateIfKnown env (Some reg) n h = Inr (Some reg, h, None)"
      by (simp add: c)
  next
    fix u assume u: "types_index (types reg) n = Some u"
    from instance_of_MessageT [of env h u] obtain h1 x
      where "instance_of env h (Some (MessageT u)) = Inr (h1, Some x)"
        and "TypeOf (Some x) = Some u"
      by blast
    then show "\<exists>h1 x. CreateIfKnown env (Some reg) n h = Inr (Some reg, h1, Some x)
                    \<and> TypeOf (Some x) = Some u"
      by (simp add: c u)
  qed
qed

theorem CreateIfKnown_excluding_well_known_witness:
  "excludeWkt (zero_KnownTypeRegistry\<lparr>excludeWkt := True\<rparr>)
 \<and> \<not> includeDefault (zero_KnownTypeRegistry\<lparr>excludeWkt := True\<rparr>)
 \<and> mu (zero_KnownTypeRegistry\<lparr>excludeWkt := True\<rparr>) \<noteq> Locked
 \<and> excludeWkt example_registry_without_wkt
 \<and> \<not> includeDefault example_registry_without_wkt
 \<and> mu example_registry_without_wkt \<noteq> Locked
 \<and> MessageType example_runtime ''google.protobuf.Timestamp''
     = Some (MessageT (PtrTo (Named ''timestamp.Timestamp'')))
 \<and> Implements_typeOfWkt example_runtime (PtrTo (Named ''timestamp.Timestamp''))
 \<and> types_index (types (zero_KnownTypeRegistry\<lparr>excludeWkt := True\<rparr>)) ''google.protobuf.Timestamp'' = None
 \<and> CreateIfKnown example_runtime (Some (zero_KnownTypeRegistry\<lparr>excludeWkt := True\<rparr>))
       ''google.protobuf.Timestamp'' []
     = Inr (Some (zero_KnownTypeRegistry\<lparr>excludeWkt := True\<rparr>), [], None)
 \<and> types_index (types example_registry_without_wkt) ''google.protobuf.Timestamp''
     = Some (PtrTo (Named ''my.Timestamp''))
 \<and> (\<exists>h1 x. CreateIfKnown example_runtime (Some example_registry_without_wkt) ''google.protobuf.Timestamp'' []
             = Inr (Some example_registry_without_wkt, h1, Some x)
           \<and> TypeOf (Some x) = Some (PtrTo (Named ''my.Timestamp'')))"
proof -
  let ?z = "zero_KnownTypeRegistry\<lparr>excludeWkt := True\<rparr>"
  have z: "excludeWkt ?z" "\<not> includeDefault ?z" "mu ?z \<noteq> Locked"
    by (simp_all add: example_defs)
  have e: "excludeWkt example_registry_without_wkt" "\<not> includeDefault example_registry_without_wkt"
    "mu example_registry_without_wkt \<noteq> Locked"
    by (simp_all add: example_defs)
  have w: "MessageType example_runtime ''google.protobuf.Timestamp''
     = Some (MessageT (PtrTo (Named ''timestamp.Timestamp'')))"
    "Implements_typeOfWkt example_runtime (PtrTo (Named ''timestamp.Timestamp''))"
    by (simp_all add: example_defs)
  have zn: "types_index (types ?z) ''google.protobuf.Timestamp'' = None"
    by (simp add: types_index_def example_defs)
  have en: "types_index (types example_registry_without_wkt) ''google.protobuf.Timestamp''
     = Some (PtrTo (Named ''my.Timestamp''))"
    by (simp add: types_index_def example_defs)
  from CreateIfKnown_excluding_well_known [OF z w, of "[]"] zn
  have a: "CreateIfKnown example_runtime (Some ?z) ''google.protobuf.Timestamp'' [] = Inr (Some ?z, [], None)"
    by blast
  from CreateIfKnown_excluding_well_known [OF e w, of "[]"] en
  have b: "\<exists>h1 x. CreateIfKnown example_runtime (Some example_registry_without_wkt) ''google.protobuf.Timestamp'' []
             = Inr (Some example_registry_without_wkt, h1, Some x)
           \<and> TypeOf (Some x) = Some (PtrTo (Named ''my.Timestamp''))"
    by blast
  from z e w zn a en b show ?thesis by (intro conjI)
qed

text \<open>
  Claim C5. When the registry includes all compiled-in types (\<open>includeDefault\<close> set),
  \<open>CreateIfKnown\<close> takes whatever \<open>proto.MessageType\<close> gives for the name and makes no
  check of the well-known marker (\<open>Implements_typeOfWkt\<close> is not a hypothesis). Well-known
  types come through this same path: the outcome does not depend on \<open>excludeWkt\<close>, nor
  on the map or the lock, which is not taken. What is selected is then instantiated as
  lines 138 to 146 do it: a message type gives an instance of that type; the map type of
  a map entry is selected too, and the call ends in the panic of the type assertion at
  line 145 instead of falling back to the map \<open>types\<close>.
\<close>

theorem CreateIfKnown_include_all_compiled:
  assumes "includeDefault reg"
  shows "(\<forall>t. MessageType env n = Some (MessageT t) \<longrightarrow>
            (\<exists>h1 x. CreateIfKnown env (Some reg) n h = Inr (Some reg, h1, Some x)
               \<and> TypeOf (Some x) = Some t
               \<and> (\<forall>b ts l. CreateIfKnown env (Some (reg\<lparr>excludeWkt := b, mu := l, types := ts\<rparr>)) n h
                      = Inr (Some (reg\<lparr>excludeWkt := b, mu := l, types := ts\<rparr>), h1, Some x))))
       \<and> (\<forall>k. MessageType env n = Some (MapT k) \<longrightarrow>
            CreateIfKnown env (Some reg) n h = Inl TypeAssertion
          \<and> (\<forall>b ts l. CreateIfKnown env (Some (reg\<lparr>excludeWkt := b, mu := l, types := ts\<rparr>)) n h
                      = Inl TypeAssertion))"
proof (intro conjI allI impI)
  fix t assume mt: "MessageType env n = Some (MessageT t)"
  from instance_of_MessageT [of env h t] obtain h1 x
    where i: "instance_of env h (Some (MessageT t)) = Inr (h1, Some x)"
      and tx: "TypeOf (Some x) = Some t"
    by blast
  have sel: "CreateIfKnown env (Some r') n h = Inr (Some r', h1, Some x)"
    if "includeDefault r' = includeDefault reg" for r'
    using that assms mt i by (subst CreateIfKnown_compiled [where t = "MessageT t"]) simp_all
  show "\<exists>h1 x. CreateIfKnown env (Some reg) n h = Inr (Some reg, h1, Some x)
               \<and> TypeOf (Some x) = Some t
               \<and> (\<forall>b ts l. CreateIfKnown env (Some (reg\<lparr>excludeWkt := b, mu := l, types := ts\<rparr>)) n h
                      = Inr (Some (reg\<lparr>excludeWkt := b, mu := l, types := ts\<rparr>), h1, Some x))"
    by (intro exI [of _ h1] exI [of _ x]) (simp add: sel tx)
next
  fix k assume mt: "MessageType env n = Some (MapT k)"
  have sel: "CreateIfKnown env (Some r') n h = Inl TypeAssertion"
    if "includeDefault r' = includeDefault reg" for r'
    using that assms mt by (subst CreateIfKnown_compiled [where t = "MapT k"]) simp_all
  show "CreateIfKnown env (Some reg) n h = Inl TypeAssertion"
    by (simp add: sel)
  show "CreateIfKnown env (Some (reg\<lparr>excludeWkt := b, mu := l, types := ts\<rparr>)) n h
          = Inl TypeAssertion" for b ts l
    by (simp add: sel)
qed

theorem CreateIfKnown_include_all_compiled_witness:
  "includeDefault (example_registry\<lparr>includeDefault := True\<rparr>)
 \<and> MessageType example_runtime ''pkg.Foo'' = Some (MessageT (PtrTo (Named ''pkg.Foo'')))
 \<and> \<not> Implements_typeOfWkt example_runtime (PtrTo (Named ''pkg.Foo''))
 \<and> (\<exists>h1 x. CreateIfKnown example_runtime (Some (example_registry\<lparr>includeDefault := True\<rparr>)) ''pkg.Foo'' []
             = Inr (Some (example_registry\<lparr>includeDefault := True\<rparr>), h1, Some x)
           \<and> TypeOf (Some x) = Some (PtrTo (Named ''pkg.Foo'')))
 \<and> MessageType example_runtime ''google.protobuf.Timestamp''
     = Some (MessageT (PtrTo (Named ''timestamp.Timestamp'')))
 \<and> (\<exists>h1 x. CreateIfKnown example_runtime
               (Some (example_registry\<lparr>includeDefault := True, excludeWkt := True\<rparr>))
               ''google.protobuf.Timestamp'' []
             = Inr (Some (example_registry\<lparr>includeDefault := True, excludeWkt := True\<rparr>), h1, Some x)
           \<and> TypeOf (Some x) = Some (PtrTo (Named ''timestamp.Timestamp'')))
 \<and> MessageType example_runtime ''google.protobuf.Struct.FieldsEntry''
     = Some (MapT ''map[string]*structpb.Value'')
 \<and> CreateIfKnown example_runtime (Some (example_registry\<lparr>includeDefault := True\<rparr>))
       ''google.protobuf.Struct.FieldsEntry'' [] = Inl TypeAssertion"
proof -
  have 1: "includeDefault (example_registry\<lparr>includeDefault := True\<rparr>)"
    by simp
  have 2: "MessageType example_runtime ''pkg.Foo'' = Some (MessageT (PtrTo (Named ''pkg.Foo'')))"
    and 3: "\<not> Implements_typeOfWkt example_runtime (PtrTo (Named ''pkg.Foo''))"
    by (simp_all add: example_defs)
  have 4: "includeDefault (example_registry\<lparr>includeDefault := True, excludeWkt := True\<rparr>)"
    by simp
  have 5: "MessageType example_runtime ''google.protobuf.Timestamp''
     = Some (MessageT (PtrTo (Named ''timestamp.Timestamp'')))"
    by (simp add: example_defs)
  have 6: "MessageType example_runtime ''google.protobuf.Struct.FieldsEntry''
     = Some (MapT ''map[string]*structpb.Value'')"
    by (simp add: example_defs)
  from CreateIfKnown_include_all_compiled [OF 1, of example_runtime "''pkg.Foo''" "[]"] 2
  have a: "\<exists>h1 x. CreateIfKnown example_runtime (Some (example_registry\<lparr>includeDefault := True\<rparr>)) ''pkg.Foo'' []
             = Inr (Some (example_registry\<lparr>includeDefault := True\<rparr>), h1, Some x)
           \<and> TypeOf (Some x) = Some (PtrTo (Named ''pkg.Foo''))"
    by blast
  from CreateIfKnown_include_all_compiled [OF 4, of example_runtime "''google.protobuf.Timestamp''" "[]"] 5
  have b: "\<exists>h1 x. CreateIfKnown example_runtime
               (Some (example_registry\<lparr>includeDefault := True, excludeWkt := True\<rparr>))
               ''google.protobuf.Timestamp'' []
             = Inr (Some (example_registry\<lparr>includeDefault := True, excludeWkt := True\<rparr>), h1, Some x)
           \<and> TypeOf (Some x) = Some (PtrTo (Named ''timestamp.Timestamp''))"
    by blast
  from CreateIfKnown_include_all_compiled
    [OF 1, of example_runtime "''google.protobuf.Struct.FieldsEntry''" "[]"] 6
  have c: "CreateIfKnown example_runtime (Some (example_registry\<lparr>includeDefault := True\<rparr>))
       ''google.protobuf.Struct.FieldsEntry'' [] = Inl TypeAssertion"
    by blast
  from 1 2 3 a 5 b 6 c show ?thesis by (intro conjI)
qed

text \<open>
  Claim C6. Every call of \<open>CreateIfKnown\<close> for a known name builds a new zero-valued
  instance. If a call returns an instance \<open>x1\<close>, the next call for the same name returns
  an instance \<open>x2\<close> as well; both calls only extend the store (the cells that existed
  are untouched). For a pointer type the two instances are references to two different
  cells, each allocated by its own call (its address is the first one past the store the
  call started from, so nothing could refer to it before), each holding the zero value, and
  writing to one cell leaves the other as it is. For a non-pointer type each call returns
  the zero value itself, which holds no reference into the store.
\<close>

theorem CreateIfKnown_fresh_instances:
  assumes "CreateIfKnown env r n h = Inr (r1, h1, Some x1)"
  shows "\<exists>h2 x2. CreateIfKnown env r1 n h1 = Inr (r1, h2, Some x2)
     \<and> take (length h) h1 = h \<and> take (length h1) h2 = h1
     \<and> ((\<exists>e a1 a2. x1 = Ref e a1 \<and> x2 = Ref e a2
            \<and> a1 = length h \<and> a2 = length h1 \<and> a1 \<noteq> a2
            \<and> h1 ! a1 = Zero env e \<and> h2 ! a1 = Zero env e \<and> h2 ! a2 = Zero env e
            \<and> (\<forall>v. (h2[a1 := v]) ! a2 = h2 ! a2 \<and> (h2[a2 := v]) ! a1 = h2 ! a1))
       \<or> (\<exists>s. x1 = Val (Named s) (Zero env (Named s)) \<and> x2 = Val (Named s) (Zero env (Named s))))"
proof -
  have r1: "r1 = r" using assms by (rule CreateIfKnown_registry)
  from assms obtain sel where sel: "selected env r n = Inr sel"
    and i: "instance_of env h sel = Inr (h1, Some x1)"
    unfolding CreateIfKnown_eq
    by (cases "selected env r n"; cases "instance_of env h (projr (selected env r n))") auto
  from i obtain t where t: "sel = Some (MessageT t)"
    by (cases "(env, h, sel)" rule: instance_of.cases) simp_all
  show ?thesis
  proof (cases t)
    case (Named s)
    with i t have x1: "x1 = Val (Named s) (Zero env (Named s))" and h1: "h1 = h @ [Zero env (Named s)]"
      by simp_all
    have "CreateIfKnown env r n h1 =
        Inr (r, h1 @ [Zero env (Named s)], Some (Val (Named s) (Zero env (Named s))))"
      by (simp add: CreateIfKnown_eq sel t Named)
    then show ?thesis
      unfolding r1 by (simp add: x1 h1)
  next
    case (PtrTo e)
    with i t have x1: "x1 = Ref e (length h)" and h1: "h1 = h @ [Zero env e]"
      by simp_all
    have c2: "CreateIfKnown env r n h1 = Inr (r, h1 @ [Zero env e], Some (Ref e (length h1)))"
      by (simp add: CreateIfKnown_eq sel t PtrTo)
    have "(\<exists>e' a1 a2. x1 = Ref e' a1 \<and> Ref e (length h1) = Ref e' a2
            \<and> a1 = length h \<and> a2 = length h1 \<and> a1 \<noteq> a2
            \<and> h1 ! a1 = Zero env e' \<and> (h1 @ [Zero env e]) ! a1 = Zero env e'
            \<and> (h1 @ [Zero env e]) ! a2 = Zero env e'
            \<and> (\<forall>v. ((h1 @ [Zero env e])[a1 := v]) ! a2 = (h1 @ [Zero env e]) ! a2
                  \<and> ((h1 @ [Zero env e])[a2 := v]) ! a1 = (h1 @ [Zero env e]) ! a1))"
      by (rule exI [of _ e], rule exI [of _ "length h"], rule exI [of _ "length h1"])
         (simp add: x1 h1 nth_append)
    then show ?thesis
      unfolding r1 c2 by (simp add: h1)
  qed
qed

theorem CreateIfKnown_fresh_instances_witness:
  "CreateIfKnown example_runtime (Some example_registry) ''pkg.Bar'' [7]
     = Inr (Some example_registry, [7, 0], Some (Ref (Named ''pkg.Bar'') 1))
 \<and> (\<exists>h2 a2. CreateIfKnown example_runtime (Some example_registry) ''pkg.Bar'' [7, 0]
               = Inr (Some example_registry, h2, Some (Ref (Named ''pkg.Bar'') a2))
         \<and> take 2 h2 = [7, 0] \<and> a2 = 2 \<and> h2 ! 1 = 0 \<and> h2 ! a2 = 0
         \<and> (\<forall>v. (h2[1 := v]) ! a2 = h2 ! a2 \<and> (h2[a2 := v]) ! 1 = h2 ! 1))
 \<and> CreateIfKnown example_runtime NewKnownTypeRegistryWithDefaults ''pkg.Pair'' [7]
     = Inr (NewKnownTypeRegistryWithDefaults, [7, 0], Some (Val (Named ''pkg.Pair'') 0))
 \<and> (\<exists>h2. CreateIfKnown example_runtime NewKnownTypeRegistryWithDefaults ''pkg.Pair'' [7, 0]
            = Inr (NewKnownTypeRegistryWithDefaults, h2, Some (Val (Named ''pkg.Pair'') 0))
         \<and> take 2 h2 = [7, 0])"
proof -
  have p: "CreateIfKnown example_runtime (Some example_registry) ''pkg.Bar'' [7]
     = Inr (Some example_registry, [7, 0], Some (Ref (Named ''pkg.Bar'') 1))"
    by (simp add: CreateIfKnown_eval example_defs)
  have v: "CreateIfKnown example_runtime NewKnownTypeRegistryWithDefaults ''pkg.Pair'' [7]
     = Inr (NewKnownTypeRegistryWithDefaults, [7, 0], Some (Val (Named ''pkg.Pair'') 0))"
    by (simp add: CreateIfKnown_eval NewKnownTypeRegistryWithDefaults_def example_defs)
  from CreateIfKnown_fresh_instances [OF p]
  have a: "\<exists>h2 a2. CreateIfKnown example_runtime (Some example_registry) ''pkg.Bar'' [7, 0]
               = Inr (Some example_registry, h2, Some (Ref (Named ''pkg.Bar'') a2))
         \<and> take 2 h2 = [7, 0] \<and> a2 = 2 \<and> h2 ! 1 = 0 \<and> h2 ! a2 = 0
         \<and> (\<forall>v. (h2[1 := v]) ! a2 = h2 ! a2 \<and> (h2[a2 := v]) ! 1 = h2 ! 1)"
    by (auto simp: example_runtime_def numeral_2_eq_2)
  from CreateIfKnown_fresh_instances [OF v]
  have b: "\<exists>h2. CreateIfKnown example_runtime NewKnownTypeRegistryWithDefaults ''pkg.Pair'' [7, 0]
            = Inr (NewKnownTypeRegistryWithDefaults, h2, Some (Val (Named ''pkg.Pair'') 0))
         \<and> take 2 h2 = [7, 0]"
    by (auto simp: example_runtime_def numeral_2_eq_2)
  from p a v b show ?thesis by (intro conjI)
qed

text \<open>
  Claim C7. On a registry whose lock is free \<open>AddKnownType\<close> returns, and leaves the
  flags and the lock as they were. The new map is the old one (the empty map when it was
  nil) overridden by the given messages, each under its \<open>proto.MessageName\<close> with its
  \<open>reflect.TypeOf\<close>, a later message overriding an earlier one of the same name. The keys
  of the new map are the old keys and the names of the given messages: no entry is removed.
  Registering the same messages again changes nothing. For a name that none of the given
  messages has, the map gives what it gave, and \<open>CreateIfKnown\<close> returns what it returned.
\<close>

theorem AddKnownType_last_wins_additive:
  assumes "mu reg = Unlocked"
  shows "\<exists>reg' m'.
       AddKnownType env (Some reg) kts = Inr reg'
     \<and> excludeWkt reg' = excludeWkt reg \<and> includeDefault reg' = includeDefault reg
     \<and> mu reg' = Unlocked \<and> types reg' = Some m'
     \<and> m' = (case types reg of None \<Rightarrow> Map.empty | Some m \<Rightarrow> m)
              ++ map_of (rev (map (\<lambda>kt. (MessageName env kt, TypeOf kt)) kts))
     \<and> dom (case types reg of None \<Rightarrow> Map.empty | Some m \<Rightarrow> m) \<union> MessageName env ` set kts = dom m'
     \<and> AddKnownType env (Some reg') kts = Inr reg'
     \<and> (\<forall>n. n \<notin> MessageName env ` set kts \<longrightarrow>
            types_index (types reg') n = types_index (types reg) n
          \<and> (\<forall>h. CreateIfKnown env (Some reg') n h =
                 (case CreateIfKnown env (Some reg) n h of
                    Inl e \<Rightarrow> Inl e | Inr (r1, hm) \<Rightarrow> Inr (Some reg', hm))))"
proof -
  let ?m = "case types reg of None \<Rightarrow> Map.empty | Some m \<Rightarrow> m"
  let ?f = "map_of (rev (map (\<lambda>kt. (MessageName env kt, TypeOf kt)) kts))"
  let ?reg' = "reg\<lparr>types := Some (?m ++ ?f)\<rparr>"
  have a: "AddKnownType env (Some reg) kts = Inr ?reg'"
    using assms by (simp add: AddKnownType_returns AddKnownType_loop_eq)
  have b: "AddKnownType env (Some ?reg') kts = Inr ?reg'"
    using assms by (simp add: AddKnownType_returns AddKnownType_loop_eq map_add_idem)
  have domf: "dom ?f = MessageName env ` set kts"
    by (simp add: dom_map_of_conv_image_fst image_image)
  have d: "dom ?m \<union> MessageName env ` set kts = dom (?m ++ ?f)"
    using domf by auto
  have other: "types_index (types ?reg') n = types_index (types reg) n"
    if "n \<notin> MessageName env ` set kts" for n
  proof -
    from that domf have "?f n = None" by blast
    then have "(?m ++ ?f) n = ?m n" by (simp add: map_add_def)
    then show ?thesis
      by (cases "types reg") (simp_all add: types_index_def)
  qed
  have e: "CreateIfKnown env (Some ?reg') n h =
         (case CreateIfKnown env (Some reg) n h of
            Inl e \<Rightarrow> Inl e | Inr (r1, hm) \<Rightarrow> Inr (Some ?reg', hm))"
    if "n \<notin> MessageName env ` set kts" for n h
    using other [OF that] by (intro CreateIfKnown_cong) simp_all
  show ?thesis
  proof (intro exI [of _ ?reg'] exI [of _ "?m ++ ?f"] conjI allI impI)
    show "AddKnownType env (Some reg) kts = Inr ?reg'" by (rule a)
    show "AddKnownType env (Some ?reg') kts = Inr ?reg'" by (rule b)
    show "dom ?m \<union> MessageName env ` set kts = dom (?m ++ ?f)" by (rule d)
    show "mu ?reg' = Unlocked" by (simp add: assms)
    show "types_index (types ?reg') n = types_index (types reg) n"
      if "n \<notin> MessageName env ` set kts" for n by (rule other [OF that])
    show "CreateIfKnown env (Some ?reg') n h =
         (case CreateIfKnown env (Some reg) n h of
            Inl e \<Rightarrow> Inl e | Inr (r1, hm) \<Rightarrow> Inr (Some ?reg', hm))"
      if "n \<notin> MessageName env ` set kts" for n h by (rule e [OF that])
  qed simp_all
qed

theorem AddKnownType_last_wins_additive_witness:
  "mu example_registry = Unlocked
 \<and> (\<exists>reg'. AddKnownType example_runtime (Some example_registry)
        [Some (NilPtr (Named ''pkg.Foo'')), Some (NilPtr (Named ''timestamp.Timestamp''))] = Inr reg'
      \<and> excludeWkt reg' = excludeWkt example_registry
      \<and> includeDefault reg' = includeDefault example_registry
      \<and> mu reg' = Unlocked
      \<and> types_index (types reg') ''pkg.Foo'' = Some (PtrTo (Named ''pkg.Foo''))
      \<and> types_index (types reg') ''google.protobuf.Timestamp'' = Some (PtrTo (Named ''timestamp.Timestamp''))
      \<and> types_index (types reg') ''pkg.Bar'' = Some (PtrTo (Named ''pkg.Bar''))
      \<and> AddKnownType example_runtime (Some reg')
           [Some (NilPtr (Named ''pkg.Foo'')), Some (NilPtr (Named ''timestamp.Timestamp''))] = Inr reg'
      \<and> CreateIfKnown example_runtime (Some reg') ''pkg.Bar'' [] =
           Inr (Some reg', [0], Some (Ref (Named ''pkg.Bar'') 0)))"
proof -
  let ?kts = "[Some (NilPtr (Named ''pkg.Foo'')), Some (NilPtr (Named ''timestamp.Timestamp''))]
                :: nat message option list"
  have u: "mu example_registry = Unlocked"
    by (simp add: example_defs)
  have names: "MessageName example_runtime ` set ?kts = {''pkg.Foo'', ''google.protobuf.Timestamp''}"
    by (simp add: example_runtime_def insert_commute)
  have bar: "''pkg.Bar'' \<notin> MessageName example_runtime ` set ?kts"
    unfolding names by simp
  have before: "types_index (types example_registry) ''pkg.Bar'' = Some (PtrTo (Named ''pkg.Bar''))"
    by (simp add: types_index_def example_defs)
  have call: "CreateIfKnown example_runtime (Some example_registry) ''pkg.Bar'' [] =
      Inr (Some example_registry, [0], Some (Ref (Named ''pkg.Bar'') 0))"
    by (simp add: CreateIfKnown_eval example_defs)
  from AddKnownType_last_wins_additive [OF u, of example_runtime ?kts]
  obtain reg' m' where r:
    "AddKnownType example_runtime (Some example_registry) ?kts = Inr reg'"
    "excludeWkt reg' = excludeWkt example_registry"
    "includeDefault reg' = includeDefault example_registry"
    "mu reg' = Unlocked"
    "types reg' = Some m'"
    "m' = (case types example_registry of None \<Rightarrow> Map.empty | Some m \<Rightarrow> m)
              ++ map_of (rev (map (\<lambda>kt. (MessageName example_runtime kt, TypeOf kt)) ?kts))"
    "AddKnownType example_runtime (Some reg') ?kts = Inr reg'"
    "\<forall>n. n \<notin> MessageName example_runtime ` set ?kts \<longrightarrow>
            types_index (types reg') n = types_index (types example_registry) n
          \<and> (\<forall>h. CreateIfKnown example_runtime (Some reg') n h =
                 (case CreateIfKnown example_runtime (Some example_registry) n h of
                    Inl e \<Rightarrow> Inl e | Inr (r1, hm) \<Rightarrow> Inr (Some reg', hm)))"
    by blast
  have foo: "types_index (types reg') ''pkg.Foo'' = Some (PtrTo (Named ''pkg.Foo''))"
    unfolding r(5) r(6) by (simp add: types_index_def example_defs)
  have ts: "types_index (types reg') ''google.protobuf.Timestamp'' = Some (PtrTo (Named ''timestamp.Timestamp''))"
    unfolding r(5) r(6) by (simp add: types_index_def example_defs)
  from r(8) bar before have bar': "types_index (types reg') ''pkg.Bar'' = Some (PtrTo (Named ''pkg.Bar''))"
    by simp
  from r(8) bar have "CreateIfKnown example_runtime (Some reg') ''pkg.Bar'' [] =
       (case CreateIfKnown example_runtime (Some example_registry) ''pkg.Bar'' [] of
                    Inl e \<Rightarrow> Inl e | Inr (r1, hm) \<Rightarrow> Inr (Some reg', hm))"
    by blast
  then have call': "CreateIfKnown example_runtime (Some reg') ''pkg.Bar'' [] =
           Inr (Some reg', [0], Some (Ref (Named ''pkg.Bar'') 0))"
    unfolding call by simp
  from u r(1-4) foo ts bar' r(7) call' show ?thesis by blast
qed

text \<open>
  Claim C8, as amended. \<open>AddKnownType\<close> makes no check of its own on the messages it
  is given. A message for which \<open>proto.MessageName\<close> gives the empty name is stored
  silently: the call returns, and the empty name is bound to the \<open>reflect.TypeOf\<close> of
  the message. The same holds for the nil message, which binds the empty name to the nil
  type. A call on a nil receiver panics.
\<close>

theorem AddKnownType_no_validation:
  "AddKnownType env None kts = Inl NilDereference
 \<and> (mu reg = Unlocked \<and> MessageName env kt = [] \<longrightarrow>
       (\<exists>reg' m'. AddKnownType env (Some reg) [kt] = Inr reg'
           \<and> types reg' = Some m' \<and> m' [] = Some (TypeOf kt)
           \<and> types_index (types reg') [] = TypeOf kt))
 \<and> (mu reg = Unlocked \<and> MessageName env None = [] \<longrightarrow>
       (\<exists>reg' m'. AddKnownType env (Some reg) [None] = Inr reg'
           \<and> types reg' = Some m' \<and> m' [] = Some None
           \<and> types_index (types reg') [] = None))"
proof (intro conjI impI)
  show "AddKnownType env None kts = Inl NilDereference"
    by (simp add: AddKnownType_def)
next
  assume "mu reg = Unlocked \<and> MessageName env kt = []"
  then show "\<exists>reg' m'. AddKnownType env (Some reg) [kt] = Inr reg'
           \<and> types reg' = Some m' \<and> m' [] = Some (TypeOf kt)
           \<and> types_index (types reg') [] = TypeOf kt"
    by (simp add: AddKnownType_returns types_index_def)
next
  assume "mu reg = Unlocked \<and> MessageName env None = []"
  then show "\<exists>reg' m'. AddKnownType env (Some reg) [None] = Inr reg'
           \<and> types reg' = Some m' \<and> m' [] = Some None
           \<and> types_index (types reg') [] = None"
    by (simp add: AddKnownType_returns types_index_def)
qed

theorem AddKnownType_no_validation_witness:
  "AddKnownType example_runtime None [Some (NilPtr (Named ''pkg.Foo''))] = Inl NilDereference
 \<and> mu example_registry = Unlocked
 \<and> MessageName example_runtime (Some (Val (Named ''pkg.Anon'') 3)) = []
 \<and> (\<exists>reg' m'. AddKnownType example_runtime (Some example_registry) [Some (Val (Named ''pkg.Anon'') 3)]
         = Inr reg'
       \<and> types reg' = Some m' \<and> m' [] = Some (Some (Named ''pkg.Anon''))
       \<and> types_index (types reg') [] = Some (Named ''pkg.Anon''))
 \<and> MessageName example_runtime None = []
 \<and> (\<exists>reg' m'. AddKnownType example_runtime (Some example_registry) [None] = Inr reg'
       \<and> types reg' = Some m' \<and> m' [] = Some None
       \<and> types_index (types reg') [] = None)"
proof -
  note nv = AddKnownType_no_validation
    [of example_runtime "[Some (NilPtr (Named ''pkg.Foo''))]" example_registry
        "Some (Val (Named ''pkg.Anon'') 3)"]
  have u: "mu example_registry = Unlocked"
    by (simp add: example_defs)
  have n1: "MessageName example_runtime (Some (Val (Named ''pkg.Anon'') 3)) = []"
    and n2: "MessageName example_runtime None = []"
    by (simp_all add: example_defs)
  from nv have a: "AddKnownType example_runtime None [Some (NilPtr (Named ''pkg.Foo''))] = Inl NilDereference"
    by blast
  from nv u n1
  have b: "\<exists>reg' m'. AddKnownType example_runtime (Some example_registry) [Some (Val (Named ''pkg.Anon'') 3)]
         = Inr reg'
       \<and> types reg' = Some m' \<and> m' [] = Some (Some (Named ''pkg.Anon''))
       \<and> types_index (types reg') [] = Some (Named ''pkg.Anon'')"
    by simp
  from nv u n2
  have c: "\<exists>reg' m'. AddKnownType example_runtime (Some example_registry) [None] = Inr reg'
       \<and> types reg' = Some m' \<and> m' [] = Some None
       \<and> types_index (types reg') [] = None"
    by blast
  from a u n1 b n2 c show ?thesis by (intro conjI)
qed

text \<open>
  The claim as it was stated fails: registering a message that has no fully-qualified name
  (\<open>proto.MessageName\<close> gives the empty string), or the nil message, on a zero-value
  registry returns normally. The first is stored under the empty name; the second binds
  the empty name to the nil type.
\<close>

theorem AddKnownType_invalid_message_counterexample:
  "MessageName example_runtime (Some (NilPtr (Named ''pkg.Anon''))) = []
 \<and> AddKnownType example_runtime (Some zero_KnownTypeRegistry) [Some (NilPtr (Named ''pkg.Anon''))]
     = Inr (zero_KnownTypeRegistry\<lparr>types := Some [[] \<mapsto> Some (PtrTo (Named ''pkg.Anon''))]\<rparr>)
 \<and> TypeOf (None :: nat message option) = None
 \<and> AddKnownType example_runtime (Some zero_KnownTypeRegistry) [None]
     = Inr (zero_KnownTypeRegistry\<lparr>types := Some [[] \<mapsto> None]\<rparr>)
 \<and> \<not> (\<exists>e. AddKnownType example_runtime (Some zero_KnownTypeRegistry) [None] = Inl e)"
  by (simp add: AddKnownType_def Let_def example_defs)

text \<open>
  Claim C10. \<open>CreateIfKnown\<close> never mutates the registry. Whenever a call returns, the
  registry it leaves behind is the registry it found: the flags \<open>excludeWkt\<close> and
  \<open>includeDefault\<close>, the map \<open>types\<close> and the lock (taken and released again) are
  all as before. Hence after any sequence of calls that returns, the registry is still the
  same, every lookup on it gives what it gave before on the same store, and on the store
  the calls have left behind a lookup still fails, returns nil or returns an instance of
  the same type as it would have before the calls. The calls do return, one and many,
  on the nil registry and on every registry whose lock is not held by a writer, unless
  \<open>includeDefault\<close> is set and one of the names is the name of a map entry, for which
  the type assertion at line 145 panics.
\<close>

theorem CreateIfKnown_leaves_registry:
  "(\<forall>r1 h1 m. CreateIfKnown env r n h = Inr (r1, h1, m) \<longrightarrow> r1 = r)
 \<and> (\<forall>r2 h2. CreateIfKnown_calls env r ns h = Inr (r2, h2) \<longrightarrow>
       r2 = r
     \<and> (\<forall>n' h'. CreateIfKnown env r2 n' h' = CreateIfKnown env r n' h')
     \<and> (\<forall>n'. map_sum id (\<lambda>(r1, h1, m). TypeOf m) (CreateIfKnown env r2 n' h2) =
              map_sum id (\<lambda>(r1, h1, m). TypeOf m) (CreateIfKnown env r n' h)))
 \<and> ((\<forall>reg. r = Some reg \<longrightarrow>
         mu reg \<noteq> Locked
       \<and> (includeDefault reg \<longrightarrow> (\<forall>k. MessageType env n \<noteq> Some (MapT k)))) \<longrightarrow>
       (\<exists>h1 m. CreateIfKnown env r n h = Inr (r, h1, m)))
 \<and> ((\<forall>reg. r = Some reg \<longrightarrow>
         mu reg \<noteq> Locked
       \<and> (includeDefault reg \<longrightarrow> (\<forall>n' \<in> set ns. \<forall>k. MessageType env n' \<noteq> Some (MapT k)))) \<longrightarrow>
       (\<exists>h2. CreateIfKnown_calls env r ns h = Inr (r, h2)))"
proof (intro conjI allI impI)
  assume "\<forall>reg. r = Some reg \<longrightarrow>
         mu reg \<noteq> Locked
       \<and> (includeDefault reg \<longrightarrow> (\<forall>k. MessageType env n \<noteq> Some (MapT k)))"
  then show "\<exists>h1 m. CreateIfKnown env r n h = Inr (r, h1, m)"
    by (rule CreateIfKnown_returns)
next
  assume "\<forall>reg. r = Some reg \<longrightarrow>
         mu reg \<noteq> Locked
       \<and> (includeDefault reg \<longrightarrow> (\<forall>n' \<in> set ns. \<forall>k. MessageType env n' \<noteq> Some (MapT k)))"
  then show "\<exists>h2. CreateIfKnown_calls env r ns h = Inr (r, h2)"
    by (rule CreateIfKnown_calls_returns)
next
  fix r1 h1 m assume "CreateIfKnown env r n h = Inr (r1, h1, m)"
  then show "r1 = r" by (rule CreateIfKnown_registry)
next
  fix r2 h2 assume c: "CreateIfKnown_calls env r ns h = Inr (r2, h2)"
  then show "r2 = r" by (rule CreateIfKnown_calls_registry)
  then show "\<And>n' h'. CreateIfKnown env r2 n' h' = CreateIfKnown env r n' h'" by simp
  from \<open>r2 = r\<close> show "\<And>n'. map_sum id (\<lambda>(r1, h1, m). TypeOf m) (CreateIfKnown env r2 n' h2) =
              map_sum id (\<lambda>(r1, h1, m). TypeOf m) (CreateIfKnown env r n' h)"
    by (simp only: CreateIfKnown_TypeOf)
qed

theorem CreateIfKnown_leaves_registry_witness:
  "mu example_registry \<noteq> Locked \<and> \<not> includeDefault example_registry
 \<and> (\<exists>r1 h1 m. CreateIfKnown example_runtime (Some example_registry) ''pkg.Bar'' [] = Inr (r1, h1, m)
       \<and> r1 = Some example_registry)
 \<and> (\<exists>r2 h2. CreateIfKnown_calls example_runtime (Some example_registry)
         [''pkg.Bar'', ''google.protobuf.Timestamp'', ''pkg.Nope''] [] = Inr (r2, h2)
       \<and> r2 = Some example_registry
       \<and> (\<forall>n'. map_sum id (\<lambda>(r1, h1, m). TypeOf m) (CreateIfKnown example_runtime r2 n' h2) =
                map_sum id (\<lambda>(r1, h1, m). TypeOf m)
                  (CreateIfKnown example_runtime (Some example_registry) n' [])))"
proof -
  note frame = CreateIfKnown_leaves_registry [of example_runtime "Some example_registry"
      "''pkg.Bar''" "[]" "[''pkg.Bar'', ''google.protobuf.Timestamp'', ''pkg.Nope'']"]
  have free1: "\<forall>reg. Some example_registry = Some reg \<longrightarrow>
         mu reg \<noteq> Locked
       \<and> (includeDefault reg \<longrightarrow> (\<forall>k. MessageType example_runtime ''pkg.Bar'' \<noteq> Some (MapT k)))"
    by (simp add: example_defs)
  have free2: "\<forall>reg. Some example_registry = Some reg \<longrightarrow>
         mu reg \<noteq> Locked
       \<and> (includeDefault reg \<longrightarrow>
            (\<forall>n' \<in> set [''pkg.Bar'', ''google.protobuf.Timestamp'', ''pkg.Nope''].
               \<forall>k. MessageType example_runtime n' \<noteq> Some (MapT k)))"
    by (simp add: example_defs)
  from frame free1 obtain r1 h1 m where
    one: "CreateIfKnown example_runtime (Some example_registry) ''pkg.Bar'' [] = Inr (r1, h1, m)"
    by blast
  from frame free2 obtain r2 h2 where
    many: "CreateIfKnown_calls example_runtime (Some example_registry)
         [''pkg.Bar'', ''google.protobuf.Timestamp'', ''pkg.Nope''] [] = Inr (r2, h2)"
    by blast
  from frame one have "r1 = Some example_registry" by blast
  moreover from frame many have "r2 = Some example_registry
       \<and> (\<forall>n'. map_sum id (\<lambda>(r1, h1, m). TypeOf m) (CreateIfKnown example_runtime r2 n' h2) =
                map_sum id (\<lambda>(r1, h1, m). TypeOf m)
                  (CreateIfKnown example_runtime (Some example_registry) n' []))"
    by blast
  moreover have "mu example_registry \<noteq> Locked" and "\<not> includeDefault example_registry"
    by (simp_all add: example_defs)
  ultimately show ?thesis using one many by blast
qed

end
